theory Spec2Isabelle
  imports Complex_Main "HOL-Library.Sublist" "HOL-Library.Char_ord" "HOL-Library.List_Lexorder"
begin

section \<open>Python values and helpers\<close>

text \<open>
  \<open>list(s)\<close> of a Python set \<open>s\<close> builds a new list of the elements of \<open>s\<close> in an order
  the language does not fix. The order is therefore a parameter \<open>list_of\<close> of every
  function that converts a set into a list, and \<open>lists_elements\<close> says all that Python
  promises of it: the list holds exactly the elements of the (finite) set.
\<close>

definition lists_elements :: "(string set \<Rightarrow> string list) \<Rightarrow> bool" where
  "lists_elements list_of \<longleftrightarrow> (\<forall>S. finite S \<longrightarrow> set (list_of S) = S)"

text \<open>\<open>xs[:n]\<close>: a negative \<open>n\<close> counts from the end of the list.\<close>

definition slice_to :: "int \<Rightarrow> 'a list \<Rightarrow> 'a list" where
  "slice_to n xs = (if 0 \<le> n then take (nat n) xs else take (nat (int (length xs) + n)) xs)"

text \<open>\<open>s.split(c)\<close> for a one-character separator: the empty string gives \<open>['']\<close>.\<close>

fun split_on :: "char \<Rightarrow> string \<Rightarrow> string list" where
  "split_on c [] = [[]]"
| "split_on c (x # xs) =
     (if x = c then [] # split_on c xs
      else (case split_on c xs of
              [] \<Rightarrow> [[x]]
            | w # ws \<Rightarrow> (x # w) # ws))"

text \<open>\<open>sep.join(xs)\<close>.\<close>

fun join_with :: "string \<Rightarrow> string list \<Rightarrow> string" where
  "join_with sep [] = []"
| "join_with sep [x] = x"
| "join_with sep (x # y # ys) = x @ sep @ join_with sep (y # ys)"

text \<open>\<open>d.get(k, default)\<close> on a dictionary.\<close>

definition dict_get :: "('k \<rightharpoonup> 'v) \<Rightarrow> 'k \<Rightarrow> 'v \<Rightarrow> 'v" where
  "dict_get d k dflt = (case d k of None \<Rightarrow> dflt | Some v \<Rightarrow> v)"

text \<open>
  Truth value of an optional string or list in \<open>if x:\<close>: \<open>None\<close> and the empty value are
  false. \<open>values_of\<close> are the elements a loop over the argument visits.
\<close>

definition truthy :: "'a list option \<Rightarrow> bool" where
  "truthy x = (case x of None \<Rightarrow> False | Some v \<Rightarrow> v \<noteq> [])"

definition values_of :: "'a list option \<Rightarrow> 'a list" where
  "values_of x = (case x of None \<Rightarrow> [] | Some v \<Rightarrow> v)"

datatype py_error = FileNotFoundError string | KeyError string | CollectionError string

section \<open>session\_manager.py\<close>

text \<open>
  A usage record is the dictionary \<open>{'chunk_id', 'timestamp', 'metadata'}\<close> that
  \<open>mark_used\<close> appends; the timestamp is the ISO string of the clock and the metadata
  is the caller's dictionary (strings to strings, as \<open>select_and_mark_used\<close> builds it).
\<close>

record usage_record =
  usage_chunk_id :: string
  usage_timestamp :: string
  usage_metadata :: "string \<rightharpoonup> string"

record session_manager =
  session_id :: string
  used_chunk_ids :: "string set"
  usage_history :: "usage_record list"

text \<open>
  \<open>SessionManager.__init__(session_id)\<close>; \<open>generated\<close> is what
  \<open>_generate_session_id\<close> reads from the clock.
\<close>

definition new_session_manager :: "string option \<Rightarrow> string \<Rightarrow> session_manager" where
  "new_session_manager sid generated =
     \<lparr>session_id = (if truthy sid then values_of sid else generated),
      used_chunk_ids = {},
      usage_history = []\<rparr>"

text \<open>\<open>mark_used(chunk_id, metadata)\<close>; \<open>now\<close> is \<open>datetime.now().isoformat()\<close>.\<close>

definition mark_used ::
  "string \<Rightarrow> (string \<rightharpoonup> string) option \<Rightarrow> string \<Rightarrow> session_manager \<Rightarrow> session_manager" where
  "mark_used cid md now s =
     (let usage_record = \<lparr>usage_chunk_id = cid,
                          usage_timestamp = now,
                          usage_metadata = (case md of None \<Rightarrow> Map.empty | Some m \<Rightarrow> m)\<rparr>
      in s\<lparr>used_chunk_ids := insert cid (used_chunk_ids s),
           usage_history := usage_history s @ [usage_record]\<rparr>)"

definition get_exclusion_list ::
  "(string set \<Rightarrow> string list) \<Rightarrow> session_manager \<Rightarrow> string list" where
  "get_exclusion_list list_of s = list_of (used_chunk_ids s)"

definition reset :: "session_manager \<Rightarrow> session_manager" where
  "reset s = s\<lparr>used_chunk_ids := {}, usage_history := []\<rparr>"

text \<open>
  The JSON object of a session file. \<open>json.dump\<close> and \<open>json.load\<close> are taken to
  preserve it; a key may be absent (\<open>None\<close>), since \<open>load_session\<close> reads every key
  with a default. The file system maps a path to the object stored there.
\<close>

record session_data =
  data_session_id :: "string option"
  data_used_chunk_ids :: "string list option"
  data_usage_history :: "usage_record list option"
  data_usage_count :: "nat option"

type_synonym files = "string \<rightharpoonup> session_data"

definition save_session ::
  "(string set \<Rightarrow> string list) \<Rightarrow> string \<Rightarrow> session_manager \<Rightarrow> files \<Rightarrow> files" where
  "save_session list_of output_path s fs =
     (let session_data = \<lparr>data_session_id = Some (session_id s),
                          data_used_chunk_ids = Some (list_of (used_chunk_ids s)),
                          data_usage_history = Some (usage_history s),
                          data_usage_count = Some (card (used_chunk_ids s))\<rparr>
      in fs(output_path \<mapsto> session_data))"

text \<open>
  \<open>load_session\<close> raises when the file cannot be opened and leaves the session as it
  was; otherwise it replaces the three attributes.
\<close>

definition load_session ::
  "string \<Rightarrow> files \<Rightarrow> session_manager \<Rightarrow> py_error + session_manager" where
  "load_session input_path fs s =
     (case fs input_path of
        None \<Rightarrow> Inl (FileNotFoundError input_path)
      | Some session_data \<Rightarrow>
          Inr (s\<lparr>session_id := (case data_session_id session_data of
                                  None \<Rightarrow> session_id s | Some i \<Rightarrow> i),
                 used_chunk_ids := set (case data_used_chunk_ids session_data of
                                          None \<Rightarrow> [] | Some ids \<Rightarrow> ids),
                 usage_history := (case data_usage_history session_data of
                                     None \<Rightarrow> [] | Some h \<Rightarrow> h)\<rparr>))"

definition merge_session :: "session_manager \<Rightarrow> session_manager \<Rightarrow> session_manager" where
  "merge_session other_session s =
     s\<lparr>used_chunk_ids := used_chunk_ids s \<union> used_chunk_ids other_session,
       usage_history := usage_history s @ usage_history other_session\<rparr>"

section \<open>quote\_selector.py\<close>

text \<open>
  A result is the dictionary \<open>query_by_text\<close> builds for one candidate. The metadata
  values are the strings \<open>_prepare_metadata\<close> stored. The database is the function
  from \<open>query_text\<close>, \<open>n_results\<close> and \<open>where\<close> to the list of candidates that
  \<open>query_by_text\<close> returns.
\<close>

record result =
  chunk_id :: string
  chunk_text :: string
  metadata :: "string \<rightharpoonup> string"
  distance :: "real option"

type_synonym where_filters = "(string \<times> string) list"

type_synonym database = "string \<Rightarrow> int \<Rightarrow> where_filters option \<Rightarrow> result list"

record quote_request =
  semantic_query :: string
  character_type :: "string list option"
  emotional_tone :: "string list option"
  themes :: "string list option"
  context_type :: "string option"
  chunk_type :: "string option"
  formality_level :: "string option"
  play_title :: "string option"
  exclude_chunk_ids :: "string list option"
  max_results :: int

text \<open>
  \<open>_build_where_filters\<close>: the dictionary is built key by key, in this order; the
  \<open>character_type\<close> argument is not read.
\<close>

definition build_where_filters ::
  "string list option \<Rightarrow> string option \<Rightarrow> string option \<Rightarrow> string option \<Rightarrow> string option
     \<Rightarrow> where_filters option" where
  "build_where_filters character_type' context_type' chunk_type' formality_level' play_title' =
     (let wh = [];
          wh = (if truthy context_type' then wh @ [(''context'', values_of context_type')] else wh);
          wh = (if truthy chunk_type' then wh @ [(''chunk_type'', values_of chunk_type')] else wh);
          wh = (if truthy formality_level'
                then wh @ [(''formality_level'', values_of formality_level')] else wh);
          wh = (if truthy play_title' then wh @ [(''play_title'', values_of play_title')] else wh)
      in if wh \<noteq> [] then Some wh else None)"

text \<open>
  The loop of \<open>_post_filter_results\<close>: each \<open>continue\<close> drops the candidate, the last
  line appends it.
\<close>

fun post_filter_loop ::
  "string set \<Rightarrow> string list option \<Rightarrow> string list option \<Rightarrow> result list \<Rightarrow> result list" where
  "post_filter_loop all_exclusions emotional_tone' themes' [] = []"
| "post_filter_loop all_exclusions emotional_tone' themes' (r # results) =
     (let filtered = post_filter_loop all_exclusions emotional_tone' themes' results;
          result_emotions = split_on CHR '','' (dict_get (metadata r) ''emotional_tone'' '''');
          result_themes = split_on CHR '','' (dict_get (metadata r) ''themes'' '''')
      in if chunk_id r \<in> all_exclusions then filtered
         else if truthy emotional_tone' \<and>
                 \<not> list_ex (\<lambda>emotion. emotion \<in> set result_emotions) (values_of emotional_tone')
           then filtered
         else if truthy themes' \<and>
                 \<not> list_ex (\<lambda>theme. theme \<in> set result_themes) (values_of themes')
           then filtered
         else r # filtered)"

text \<open>
  \<open>_post_filter_results\<close> reads the session through \<open>get_exclusion_list\<close> and builds
  its own set \<open>all_exclusions\<close> from the returned list; the session is passed through.
\<close>

definition post_filter_results ::
  "(string set \<Rightarrow> string list) \<Rightarrow> result list \<Rightarrow> string list option \<Rightarrow> string list option
     \<Rightarrow> string list option \<Rightarrow> session_manager \<Rightarrow> result list \<times> session_manager" where
  "post_filter_results list_of results emotional_tone' themes' exclude_chunk_ids' s =
     (let all_exclusions = set (get_exclusion_list list_of s);
          all_exclusions = (if truthy exclude_chunk_ids'
                            then all_exclusions \<union> set (values_of exclude_chunk_ids')
                            else all_exclusions)
      in (post_filter_loop all_exclusions emotional_tone' themes' results, s))"

definition get_shakespeare_quote ::
  "(string set \<Rightarrow> string list) \<Rightarrow> database \<Rightarrow> quote_request \<Rightarrow> session_manager
     \<Rightarrow> result list \<times> session_manager" where
  "get_shakespeare_quote list_of db req s =
     (let where_filters = build_where_filters (character_type req) (context_type req)
                            (chunk_type req) (formality_level req) (play_title req);
          results = db (semantic_query req) (max_results req * 3)
                       (if truthy where_filters then where_filters else None);
          (filtered_results, s) = post_filter_results list_of results (emotional_tone req)
                                    (themes req) (exclude_chunk_ids req) s;
          filtered_results = slice_to (max_results req) filtered_results
      in (filtered_results, s))"

text \<open>
  The marking loop of \<open>select_and_mark_used\<close>; \<open>clock i\<close> is the time read by the
  \<open>mark_used\<close> call for the result at position \<open>i\<close>.
\<close>

fun mark_results ::
  "(nat \<Rightarrow> string) \<Rightarrow> string \<Rightarrow> nat \<Rightarrow> result list \<Rightarrow> session_manager \<Rightarrow> session_manager" where
  "mark_results clock query i [] s = s"
| "mark_results clock query i (r # results) s =
     mark_results clock query (Suc i) results
       (mark_used (chunk_id r)
          (Some [''query'' \<mapsto> query, ''chunk_text'' \<mapsto> chunk_text r]) (clock i) s)"

definition select_and_mark_used ::
  "(string set \<Rightarrow> string list) \<Rightarrow> (nat \<Rightarrow> string) \<Rightarrow> database \<Rightarrow> quote_request
     \<Rightarrow> session_manager \<Rightarrow> result list \<times> session_manager" where
  "select_and_mark_used list_of clock db req s =
     (let (results, s) = get_shakespeare_quote list_of db req s
      in (results, mark_results clock (semantic_query req) 0 results s))"

text \<open>
  A sequence of \<open>select_and_mark_used\<close> calls on one selector: each call comes with
  its request and its clock; the results of the calls are collected in call order.
\<close>

fun run_calls ::
  "(string set \<Rightarrow> string list) \<Rightarrow> database \<Rightarrow> (quote_request \<times> (nat \<Rightarrow> string)) list
     \<Rightarrow> session_manager \<Rightarrow> result list list \<times> session_manager" where
  "run_calls list_of db [] s = ([], s)"
| "run_calls list_of db ((req, clock) # calls) s =
     (let (results, s) = select_and_mark_used list_of clock db req s;
          (rest, s) = run_calls list_of db calls s
      in (results # rest, s))"

definition returned_ids :: "result list list \<Rightarrow> string list" where
  "returned_ids rss = concat (map (map chunk_id) rss)"

text \<open>The collection holds one fragment per id, so no answer lists an id twice.\<close>

definition unique_ids :: "database \<Rightarrow> bool" where
  "unique_ids db \<longleftrightarrow> (\<forall>q n w. distinct (map chunk_id (db q n w)))"

text \<open>
  A list of results is non-decreasing in distance when every later result is at least
  as far as every earlier one; a missing distance compares with nothing.
\<close>

fun distance_le :: "real option \<Rightarrow> real option \<Rightarrow> bool" where
  "distance_le (Some x) (Some y) = (x \<le> y)"
| "distance_le _ _ = False"

definition non_decreasing :: "result list \<Rightarrow> bool" where
  "non_decreasing rs = sorted_wrt (\<lambda>a b. distance_le (distance a) (distance b)) rs"

section \<open>Sequences of session operations\<close>

datatype session_op =
    MarkUsed string "(string \<rightharpoonup> string) option" string
  | Reset
  | MergeSession session_manager
  | SaveSession string
  | LoadSession string

text \<open>
  One operation on a session and the file system. A \<open>load_session\<close> that raises leaves
  both as they were.
\<close>

fun apply_op ::
  "(string set \<Rightarrow> string list) \<Rightarrow> session_manager \<times> files \<Rightarrow> session_op
     \<Rightarrow> session_manager \<times> files" where
  "apply_op list_of (s, fs) (MarkUsed cid md now) = (mark_used cid md now s, fs)"
| "apply_op list_of (s, fs) Reset = (reset s, fs)"
| "apply_op list_of (s, fs) (MergeSession other_session) = (merge_session other_session s, fs)"
| "apply_op list_of (s, fs) (SaveSession path) = (s, save_session list_of path s fs)"
| "apply_op list_of (s, fs) (LoadSession path) =
     (case load_session path fs s of Inl e \<Rightarrow> (s, fs) | Inr s' \<Rightarrow> (s', fs))"

definition run_ops ::
  "(string set \<Rightarrow> string list) \<Rightarrow> session_op list \<Rightarrow> session_manager \<times> files
     \<Rightarrow> session_manager \<times> files" where
  "run_ops list_of ops st = foldl (apply_op list_of) st ops"

text \<open>The ids of the history, and the property that the used ids are exactly these.\<close>

definition history_ids :: "usage_record list \<Rightarrow> string set" where
  "history_ids h = set (map usage_chunk_id h)"

definition used_matches_history :: "session_manager \<Rightarrow> bool" where
  "used_matches_history s \<longleftrightarrow> used_chunk_ids s = history_ids (usage_history s)"

text \<open>The sessions merged in by a sequence of operations.\<close>

fun merged_sessions :: "session_op list \<Rightarrow> session_manager list" where
  "merged_sessions [] = []"
| "merged_sessions (MergeSession other_session # ops) = other_session # merged_sessions ops"
| "merged_sessions (_ # ops) = merged_sessions ops"

text \<open>
  A session file lists as used exactly the ids of its history; every file that
  \<open>save_session\<close> writes from a session with the property is such a file.
\<close>

definition file_matches :: "session_data \<Rightarrow> bool" where
  "file_matches d \<longleftrightarrow>
     set (values_of (data_used_chunk_ids d)) = history_ids (values_of (data_usage_history d))"

definition files_match :: "files \<Rightarrow> bool" where
  "files_match fs \<longleftrightarrow> (\<forall>p d. fs p = Some d \<longrightarrow> file_matches d)"

section \<open>quote\_database.py\<close>

text \<open>
  The values of a chunk dictionary: the scalars the metadata extractor produces, lists
  of strings (emotional tones, themes, literary devices) and the embedding, a list of
  floats.
\<close>

datatype pyval = PNone | PBool bool | PInt int | PStr string | PStrs "string list"
  | PFloats "real list"

type_synonym chunk = "string \<rightharpoonup> pyval"

text \<open>Truth value in \<open>if not x\<close>.\<close>

fun py_truth :: "pyval \<Rightarrow> bool" where
  "py_truth PNone = False"
| "py_truth (PBool b) = b"
| "py_truth (PInt i) = (i \<noteq> 0)"
| "py_truth (PStr s) = (s \<noteq> [])"
| "py_truth (PStrs xs) = (xs \<noteq> [])"
| "py_truth (PFloats xs) = (xs \<noteq> [])"

text \<open>\<open>str\<close> of an integer, in decimal.\<close>

fun str_nat :: "nat \<Rightarrow> string" where
  "str_nat n =
     (if n < 10 then [''0123456789'' ! n]
      else str_nat (n div 10) @ [''0123456789'' ! (n mod 10)])"

definition str_int :: "int \<Rightarrow> string" where
  "str_int i = (if i < 0 then CHR ''-'' # str_nat (nat (- i)) else str_nat (nat i))"

text \<open>
  The value \<open>_prepare_metadata\<close> stores for one entry: a list is joined with commas,
  \<open>None\<close> is left out, anything else is converted by \<open>str\<close>. The text of a float is a
  parameter (\<open>float_str\<close>).
\<close>

fun prepare_value :: "(real \<Rightarrow> string) \<Rightarrow> pyval \<Rightarrow> string option" where
  "prepare_value float_str (PStrs xs) = Some (join_with '','' xs)"
| "prepare_value float_str (PFloats xs) = Some (join_with '','' (map float_str xs))"
| "prepare_value float_str PNone = None"
| "prepare_value float_str (PBool b) = Some (if b then ''True'' else ''False'')"
| "prepare_value float_str (PInt i) = Some (str_int i)"
| "prepare_value float_str (PStr s) = Some s"

definition prepare_metadata :: "(real \<Rightarrow> string) \<Rightarrow> chunk \<Rightarrow> (string \<rightharpoonup> string)" where
  "prepare_metadata float_str chunk =
     (\<lambda>key. if key = ''embedding'' \<or> key = ''chunk_id'' then None
            else (case chunk key of None \<Rightarrow> None | Some v \<Rightarrow> prepare_value float_str v))"

text \<open>
  The arguments of the one \<open>collection.add\<close> call that \<open>add_chunks\<close> makes: four
  lists of equal length, one position per inserted chunk.
\<close>

record add_call =
  add_ids :: "pyval list"
  add_embeddings :: "pyval list"
  add_documents :: "pyval list"
  add_metadatas :: "(string \<rightharpoonup> string) list"

text \<open>
  The loop of \<open>add_chunks\<close>. \<open>chunk['chunk_text']\<close> raises \<open>KeyError\<close> when the key is
  missing, which ends the call before \<open>collection.add\<close>.
\<close>

fun add_chunks_loop :: "(real \<Rightarrow> string) \<Rightarrow> chunk list \<Rightarrow> add_call \<Rightarrow> py_error + add_call" where
  "add_chunks_loop float_str [] acc = Inr acc"
| "add_chunks_loop float_str (chunk # chunks) acc =
     (let cid = dict_get chunk ''chunk_id'' PNone in
      if \<not> py_truth cid then add_chunks_loop float_str chunks acc
      else
        let embedding = dict_get chunk ''embedding'' PNone in
        if \<not> py_truth embedding then add_chunks_loop float_str chunks acc
        else
          let md = prepare_metadata float_str chunk in
          (case chunk ''chunk_text'' of
             None \<Rightarrow> Inl (KeyError ''chunk_text'')
           | Some text \<Rightarrow>
               add_chunks_loop float_str chunks
                 (acc\<lparr>add_ids := add_ids acc @ [cid],
                      add_embeddings := add_embeddings acc @ [embedding],
                      add_documents := add_documents acc @ [text],
                      add_metadatas := add_metadatas acc @ [md]\<rparr>)))"

text \<open>
  \<open>collection.add\<close> belongs to the vector store, not to this repository: it is the
  parameter \<open>collection_add\<close>, which takes the arguments of the call and the
  collection, and either raises or returns the collection with the rows added.
  \<open>add_chunks\<close> has no handler around the call, so an exception of the store leaves
  \<open>add_chunks\<close> as it is raised; when \<open>add_chunks\<close> makes no call the collection is
  as it was.
\<close>

definition add_chunks ::
  "(add_call \<Rightarrow> 'c \<Rightarrow> py_error + 'c) \<Rightarrow> (real \<Rightarrow> string) \<Rightarrow> chunk list \<Rightarrow> 'c
     \<Rightarrow> py_error + 'c" where
  "add_chunks collection_add float_str chunks collection =
     (if chunks = [] then Inr collection
      else (case add_chunks_loop float_str chunks
                   \<lparr>add_ids = [], add_embeddings = [], add_documents = [], add_metadatas = []\<rparr> of
              Inl e \<Rightarrow> Inl e
            | Inr call \<Rightarrow>
                if add_ids call \<noteq> [] then collection_add call collection else Inr collection))"

text \<open>A chunk that the loop of \<open>add_chunks\<close> does not skip.\<close>

definition has_id_and_embedding :: "chunk \<Rightarrow> bool" where
  "has_id_and_embedding chunk \<longleftrightarrow>
     py_truth (dict_get chunk ''chunk_id'' PNone) \<and> py_truth (dict_get chunk ''embedding'' PNone)"

section \<open>Example data\<close>

text \<open>Three stored fragments, a database answering with the nearest ones, a request.\<close>

definition love_fate :: result where
  "love_fate =
     \<lparr>chunk_id = ''c1'', chunk_text = ''My only love sprung from my only hate'',
      metadata = [''themes'' \<mapsto> ''love,fate'', ''emotional_tone'' \<mapsto> ''loving'',
                  ''character_type'' \<mapsto> ''commoner''],
      distance = Some (1 / 10)\<rparr>"

definition death_only :: result where
  "death_only =
     \<lparr>chunk_id = ''c2'', chunk_text = ''To die, to sleep'',
      metadata = [''themes'' \<mapsto> ''death'', ''emotional_tone'' \<mapsto> ''melancholy'',
                  ''character_type'' \<mapsto> ''royalty''],
      distance = Some (2 / 10)\<rparr>"

definition no_fields :: result where
  "no_fields =
     \<lparr>chunk_id = ''c3'', chunk_text = ''Exeunt'', metadata = Map.empty,
      distance = Some (3 / 10)\<rparr>"

definition small_db :: database where
  "small_db q n w = slice_to n [love_fate, death_only, no_fields]"

definition plain_request :: "string \<Rightarrow> int \<Rightarrow> quote_request" where
  "plain_request q n =
     \<lparr>semantic_query = q, character_type = None, emotional_tone = None, themes = None,
      context_type = None, chunk_type = None, formality_level = None, play_title = None,
      exclude_chunk_ids = None, max_results = n\<rparr>"

definition love_or_death :: quote_request where
  "love_or_death = (plain_request ''love'' 2)\<lparr>themes := Some [''love'', ''death'']\<rparr>"

definition first_session :: session_manager where
  "first_session = new_session_manager None ''20240101_120000''"

definition royalty_request :: quote_request where
  "royalty_request = (plain_request ''a king speaks'' 1)\<lparr>character_type := Some [''royalty'']\<rparr>"

definition noon :: "nat \<Rightarrow> string" where
  "noon i = ''2024-01-01T12:00:00''"

text \<open>A session with two used fragments, and a sequence of operations on a session.\<close>

definition two_used :: session_manager where
  "two_used = mark_used ''c2'' None ''2024-01-01T12:00:05''
                (mark_used ''c1'' None ''2024-01-01T12:00:01'' first_session)"

definition scene_ops :: "session_op list" where
  "scene_ops =
     [MarkUsed ''c1'' None ''2024-01-01T12:00:01'', SaveSession ''session.json'',
      MergeSession two_used, Reset, MarkUsed ''c3'' None ''2024-01-01T12:00:09'',
      LoadSession ''session.json'', LoadSession ''missing.json'']"

text \<open>Chunks as the ingestion pipeline builds them, and the result stored for a chunk.\<close>

definition zero_text :: "real \<Rightarrow> string" where
  "zero_text x = ''0.0''"

definition hamlet_chunk :: chunk where
  "hamlet_chunk =
     [''chunk_id'' \<mapsto> PStr ''test_1'',
      ''chunk_text'' \<mapsto> PStr ''To be, or not to be: that is the question'',
      ''play_title'' \<mapsto> PStr ''Hamlet'', ''act'' \<mapsto> PInt 3,
      ''emotional_tone'' \<mapsto> PStrs [''melancholy'', ''contemplative''],
      ''themes'' \<mapsto> PStrs [''death'', ''existence''],
      ''embedding'' \<mapsto> PFloats [1 / 10, 2 / 10]]"

definition chunk_without_embedding :: chunk where
  "chunk_without_embedding =
     [''chunk_id'' \<mapsto> PStr ''test_2'', ''chunk_text'' \<mapsto> PStr ''All the world is a stage'',
      ''themes'' \<mapsto> PStrs [''time'']]"

definition untagged_chunk :: chunk where
  "untagged_chunk =
     [''chunk_id'' \<mapsto> PStr ''test_3'', ''chunk_text'' \<mapsto> PStr ''Exeunt'',
      ''themes'' \<mapsto> PStrs [], ''embedding'' \<mapsto> PFloats [3 / 10]]"

definition stored_result :: "string \<Rightarrow> string \<Rightarrow> chunk \<Rightarrow> result" where
  "stored_result cid text chunk =
     \<lparr>chunk_id = cid, chunk_text = text, metadata = prepare_metadata zero_text chunk,
      distance = Some (1 / 2)\<rparr>"

text \<open>
  A store for the examples: the collection is the list of the ids it holds, and a call
  with a repeated id, with an id already held or with embeddings of different lengths is
  refused.
\<close>

fun embedding_length :: "pyval \<Rightarrow> nat" where
  "embedding_length (PFloats xs) = length xs"
| "embedding_length _ = 0"

definition strict_add :: "add_call \<Rightarrow> pyval list \<Rightarrow> py_error + pyval list" where
  "strict_add call held =
     (if \<not> distinct (held @ add_ids call) then Inl (CollectionError ''duplicate id'')
      else if 1 < length (remdups (map embedding_length (add_embeddings call)))
        then Inl (CollectionError ''embedding dimension'')
      else Inr (held @ add_ids call))"

text \<open>A session file whose used ids are not the ids of its history.\<close>

definition mismatch_file :: session_data where
  "mismatch_file =
     \<lparr>data_session_id = Some ''20231231_235959'',
      data_used_chunk_ids = Some [''a'', ''a'', ''b''],
      data_usage_history =
        Some [\<lparr>usage_chunk_id = ''c'', usage_timestamp = ''2023-12-31T23:59:59'',
               usage_metadata = Map.empty\<rparr>],
      data_usage_count = Some 2\<rparr>"

lemmas example_defs =
  love_fate_def death_only_def no_fields_def small_db_def plain_request_def love_or_death_def
  first_session_def
  new_session_manager_def royalty_request_def

lemmas selector_defs =
  get_shakespeare_quote_def post_filter_results_def get_exclusion_list_def
  build_where_filters_def truthy_def values_of_def slice_to_def dict_get_def

section \<open>Retrieval: cap, order, frame\<close>

lemma length_slice_to: "0 \<le> n \<Longrightarrow> length (slice_to n xs) \<le> nat n"
  by (simp add: slice_to_def)

text \<open>
  C5. A call of \<open>get_shakespeare_quote\<close> with \<open>max_results = N\<close>, \<open>N\<close> a natural
  number, returns at most \<open>N\<close> results, whatever list of candidates the database returns.
\<close>

theorem cap_respected:
  "0 \<le> max_results req \<Longrightarrow>
   length (fst (get_shakespeare_quote list_of db req s)) \<le> nat (max_results req)"
  by (simp add: get_shakespeare_quote_def Let_def split_beta length_slice_to)

theorem cap_respected_witness:
  "0 \<le> max_results (plain_request ''love'' 1) \<and>
   length (fst (get_shakespeare_quote sorted_list_of_set small_db (plain_request ''love'' 1)
                  first_session)) \<le> 1"
  using cap_respected [of "plain_request ''love'' 1" sorted_list_of_set small_db first_session]
  by (simp add: plain_request_def)

text \<open>
  The loop of the post-filter is a filter: it keeps, in order, the candidates that pass
  none of the three \<open>continue\<close> tests.
\<close>

lemma post_filter_loop_filter:
  "post_filter_loop E t th rs =
     filter (\<lambda>r. chunk_id r \<notin> E \<and>
        \<not> (truthy t \<and>
           \<not> list_ex (\<lambda>e. e \<in> set (split_on CHR '','' (dict_get (metadata r) ''emotional_tone'' [])))
               (values_of t)) \<and>
        \<not> (truthy th \<and>
           \<not> list_ex (\<lambda>e. e \<in> set (split_on CHR '','' (dict_get (metadata r) ''themes'' [])))
               (values_of th))) rs"
  by (induction rs) (simp_all add: Let_def)

lemma subseq_post_filter_loop: "subseq (post_filter_loop E t th rs) rs"
  by (simp add: post_filter_loop_filter)

lemma subseq_slice_to: "subseq (slice_to n xs) xs"
  by (simp add: slice_to_def prefix_imp_subseq take_is_prefix)

lemma sorted_wrt_subseq: "subseq ys xs \<Longrightarrow> sorted_wrt P xs \<Longrightarrow> sorted_wrt P ys"
proof (induction ys xs rule: list_emb.induct)
  case (list_emb_Nil ys)
  then show ?case by simp
next
  case (list_emb_Cons xs ys y)
  then show ?case by simp
next
  case (list_emb_Cons2 x y xs ys)
  from list_emb_Cons2.hyps(2) have "set xs \<subseteq> set ys"
    by (auto dest: list_emb_set)
  with list_emb_Cons2 show ?case by auto
qed

text \<open>
  \<open>_build_where_filters\<close> never returns an empty dictionary, so the second test
  \<open>where_filters if where_filters else None\<close> changes nothing.
\<close>

lemma build_where_filters_truthy:
  "(if truthy (build_where_filters a b c d e) then build_where_filters a b c d e else None)
     = build_where_filters a b c d e"
  by (simp add: build_where_filters_def truthy_def Let_def)

lemma fst_get_shakespeare_quote:
  "fst (get_shakespeare_quote list_of db req s) =
     slice_to (max_results req)
       (post_filter_loop
          (set (list_of (used_chunk_ids s)) \<union> set (values_of (exclude_chunk_ids req)))
          (emotional_tone req) (themes req)
          (db (semantic_query req) (max_results req * 3)
             (build_where_filters (character_type req) (context_type req) (chunk_type req)
                (formality_level req) (play_title req))))"
  unfolding get_shakespeare_quote_def Let_def build_where_filters_truthy
  by (simp add: post_filter_results_def get_exclusion_list_def Let_def truthy_def values_of_def
      split: option.splits)

text \<open>
  C6. When the candidates the database returns are non-decreasing in distance, the
  results of \<open>get_shakespeare_quote\<close> are a subsequence of the candidates, in the same
  relative order, and so are non-decreasing in distance themselves.
\<close>

theorem order_preserved:
  assumes "candidates = db (semantic_query req) (max_results req * 3)
             (build_where_filters (character_type req) (context_type req) (chunk_type req)
                (formality_level req) (play_title req))"
    and "non_decreasing candidates"
  shows "subseq (fst (get_shakespeare_quote list_of db req s)) candidates \<and>
         non_decreasing (fst (get_shakespeare_quote list_of db req s))"
proof -
  have sub: "subseq (fst (get_shakespeare_quote list_of db req s)) candidates"
    unfolding fst_get_shakespeare_quote assms(1)
    by (rule subseq_order.trans [OF subseq_slice_to subseq_post_filter_loop])
  with assms(2) show ?thesis
    unfolding non_decreasing_def by (blast intro: sorted_wrt_subseq)
qed

theorem order_preserved_witness:
  "non_decreasing [love_fate, death_only, no_fields] \<and>
   subseq (fst (get_shakespeare_quote sorted_list_of_set small_db love_or_death first_session))
          [love_fate, death_only, no_fields] \<and>
   non_decreasing (fst (get_shakespeare_quote sorted_list_of_set small_db love_or_death
                          first_session))"
proof -
  have c: "[love_fate, death_only, no_fields] =
      small_db (semantic_query love_or_death) (max_results love_or_death * 3)
        (build_where_filters (character_type love_or_death) (context_type love_or_death)
           (chunk_type love_or_death) (formality_level love_or_death)
           (play_title love_or_death))"
    by (simp add: small_db_def love_or_death_def plain_request_def slice_to_def)
  have n: "non_decreasing [love_fate, death_only, no_fields]"
    by (simp add: non_decreasing_def love_fate_def death_only_def no_fields_def)
  from order_preserved [where db = small_db and req = love_or_death, OF c n] n
  show ?thesis by simp
qed

text \<open>
  C8. \<open>get_shakespeare_quote\<close> returns the session it was given: the used ids and the
  usage history are the same after the call as before, for every request.
\<close>

theorem retrieve_leaves_session:
  "snd (get_shakespeare_quote list_of db req s) = s"
  by (simp add: get_shakespeare_quote_def post_filter_results_def Let_def)

section \<open>The post-filter\<close>

lemma list_ex_inter: "list_ex (\<lambda>e. e \<in> set ys) xs \<longleftrightarrow> set xs \<inter> set ys \<noteq> {}"
  by (auto simp: list_ex_iff)

text \<open>
  C4, as the code has it. The post-filter keeps a candidate iff its id is outside the exclusion set
  (the used ids of the session and the caller's exclusions) and, for each requested
  non-empty filter, one of the requested values is among the comma-separated parts of
  the stored metadata string of that field. A candidate without the field is rejected by
  every filter on that field whose requested values are all non-empty strings.
\<close>

theorem post_filter_keeps:
  assumes "lists_elements list_of" and "finite (used_chunk_ids s)"
  shows "(r \<in> set (fst (post_filter_results list_of results tones thms excl s)) \<longleftrightarrow>
            r \<in> set results \<and>
            chunk_id r \<notin> used_chunk_ids s \<union> set (values_of excl) \<and>
            (truthy tones \<longrightarrow>
               set (values_of tones) \<inter>
               set (split_on CHR '','' (dict_get (metadata r) ''emotional_tone'' [])) \<noteq> {}) \<and>
            (truthy thms \<longrightarrow>
               set (values_of thms) \<inter>
               set (split_on CHR '','' (dict_get (metadata r) ''themes'' [])) \<noteq> {})) \<and>
         (truthy tones \<and> [] \<notin> set (values_of tones) \<and> metadata r ''emotional_tone'' = None \<longrightarrow>
            r \<notin> set (fst (post_filter_results list_of results tones thms excl s))) \<and>
         (truthy thms \<and> [] \<notin> set (values_of thms) \<and> metadata r ''themes'' = None \<longrightarrow>
            r \<notin> set (fst (post_filter_results list_of results tones thms excl s)))"
proof -
  from assms have E: "set (list_of (used_chunk_ids s)) = used_chunk_ids s"
    by (simp add: lists_elements_def)
  have excl: "(if truthy excl then used_chunk_ids s \<union> set (values_of excl) else used_chunk_ids s)
                = used_chunk_ids s \<union> set (values_of excl)"
    by (simp add: truthy_def values_of_def split: option.splits)
  have fst_eq: "fst (post_filter_results list_of results tones thms excl s) =
      post_filter_loop (used_chunk_ids s \<union> set (values_of excl)) tones thms results"
    by (simp add: post_filter_results_def get_exclusion_list_def Let_def E excl)
  have iff: "r \<in> set (fst (post_filter_results list_of results tones thms excl s)) \<longleftrightarrow>
            r \<in> set results \<and>
            chunk_id r \<notin> used_chunk_ids s \<union> set (values_of excl) \<and>
            (truthy tones \<longrightarrow>
               set (values_of tones) \<inter>
               set (split_on CHR '','' (dict_get (metadata r) ''emotional_tone'' [])) \<noteq> {}) \<and>
            (truthy thms \<longrightarrow>
               set (values_of thms) \<inter>
               set (split_on CHR '','' (dict_get (metadata r) ''themes'' [])) \<noteq> {})"
    unfolding fst_eq post_filter_loop_filter list_ex_inter by auto
  have tone: "r \<notin> set (fst (post_filter_results list_of results tones thms excl s))"
    if "truthy tones" "[] \<notin> set (values_of tones)" "metadata r ''emotional_tone'' = None"
    using that unfolding iff by (auto simp: dict_get_def)
  have theme: "r \<notin> set (fst (post_filter_results list_of results tones thms excl s))"
    if "truthy thms" "[] \<notin> set (values_of thms)" "metadata r ''themes'' = None"
    using that unfolding iff by (auto simp: dict_get_def)
  from iff tone theme show ?thesis by blast
qed

theorem post_filter_keeps_witness:
  "lists_elements sorted_list_of_set \<and> finite (used_chunk_ids first_session) \<and>
   love_fate \<in> set (fst (post_filter_results sorted_list_of_set [love_fate, death_only, no_fields]
                        None (Some [''death'', ''fate'']) None first_session)) \<and>
   death_only \<in> set (fst (post_filter_results sorted_list_of_set [love_fate, death_only, no_fields]
                        None (Some [''death'', ''fate'']) None first_session)) \<and>
   no_fields \<notin> set (fst (post_filter_results sorted_list_of_set [love_fate, death_only, no_fields]
                        None (Some [''death'', ''fate'']) None first_session))"
proof -
  have l: "lists_elements sorted_list_of_set"
    by (simp add: lists_elements_def)
  have f: "finite (used_chunk_ids first_session)"
    by (simp add: first_session_def new_session_manager_def)
  note k = post_filter_keeps [OF l f, of _ "[love_fate, death_only, no_fields]" None
             "Some [''death'', ''fate'']" None]
  have a: "love_fate \<in> set (fst (post_filter_results sorted_list_of_set [love_fate, death_only, no_fields]
                        None (Some [''death'', ''fate'']) None first_session))"
    using k [of love_fate]
    by (simp add: love_fate_def first_session_def new_session_manager_def truthy_def values_of_def
        dict_get_def)
  have b: "death_only \<in> set (fst (post_filter_results sorted_list_of_set [love_fate, death_only, no_fields]
                        None (Some [''death'', ''fate'']) None first_session))"
    using k [of death_only]
    by (simp add: death_only_def first_session_def new_session_manager_def truthy_def values_of_def
        dict_get_def)
  have c: "no_fields \<notin> set (fst (post_filter_results sorted_list_of_set [love_fate, death_only, no_fields]
                        None (Some [''death'', ''fate'']) None first_session))"
    using k [of no_fields]
    by (simp add: no_fields_def truthy_def values_of_def dict_get_def)
  from l f a b c show ?thesis by blast
qed

text \<open>
  A candidate without a \<open>themes\<close> entry passes the filter \<open>themes = ['']\<close>: the
  default \<open>''\<close> splits into \<open>['']\<close>.
\<close>

theorem lacking_field_counterexample:
  "metadata no_fields ''themes'' = None \<and>
   fst (post_filter_results sorted_list_of_set [no_fields] None (Some [[]]) None first_session)
     = [no_fields]"
  by (simp add: example_defs selector_defs)

section \<open>The character type filter\<close>

text \<open>
  C9. A request for \<open>character_type = ['royalty']\<close> returns a fragment whose stored
  \<open>character_type\<close> is \<open>commoner\<close>: the argument reaches neither the where filters
  nor the post-filter.
\<close>

theorem character_type_not_applied:
  "metadata love_fate ''character_type'' = Some ''commoner'' \<and>
   character_type royalty_request = Some [''royalty''] \<and>
   fst (get_shakespeare_quote sorted_list_of_set small_db royalty_request first_session)
     = [love_fate]"
  by (simp add: example_defs selector_defs royalty_request_def)

lemma character_type_ignored:
  "get_shakespeare_quote list_of db (req\<lparr>character_type := ct\<rparr>) s =
   get_shakespeare_quote list_of db req s"
  by (simp add: get_shakespeare_quote_def build_where_filters_def)

section \<open>No repeat within a session\<close>

lemma used_mark_used: "used_chunk_ids (mark_used cid md now s) = insert cid (used_chunk_ids s)"
  by (simp add: mark_used_def)

lemma used_mark_results:
  "used_chunk_ids (mark_results clock q i rs s) = used_chunk_ids s \<union> set (map chunk_id rs)"
  by (induction rs arbitrary: i s) (auto simp: used_mark_used)

lemma distinct_ids_slice_to:
  "distinct (map f xs) \<Longrightarrow> distinct (map f (slice_to n xs))"
  by (simp add: slice_to_def take_map [symmetric])

lemma set_slice_to: "set (slice_to n xs) \<subseteq> set xs"
  by (auto simp: slice_to_def dest: in_set_takeD)

lemma selected_ids:
  assumes "set (list_of (used_chunk_ids s)) = used_chunk_ids s"
    and "unique_ids db"
  shows "distinct (map chunk_id (fst (get_shakespeare_quote list_of db req s))) \<and>
         set (map chunk_id (fst (get_shakespeare_quote list_of db req s))) \<inter> used_chunk_ids s = {}"
proof -
  define cands where "cands = db (semantic_query req) (max_results req * 3)
             (build_where_filters (character_type req) (context_type req) (chunk_type req)
                (formality_level req) (play_title req))"
  define E where "E = set (list_of (used_chunk_ids s)) \<union> set (values_of (exclude_chunk_ids req))"
  define kept where "kept = post_filter_loop E (emotional_tone req) (themes req) cands"
  have res: "fst (get_shakespeare_quote list_of db req s) = slice_to (max_results req) kept"
    by (simp add: fst_get_shakespeare_quote kept_def E_def cands_def)
  from assms(2) have "distinct (map chunk_id cands)"
    by (simp add: unique_ids_def cands_def)
  then have "distinct (map chunk_id kept)"
    unfolding kept_def post_filter_loop_filter by (rule distinct_map_filter)
  then have d: "distinct (map chunk_id (slice_to (max_results req) kept))"
    by (rule distinct_ids_slice_to)
  have "\<forall>r \<in> set kept. chunk_id r \<notin> E"
    unfolding kept_def post_filter_loop_filter by simp
  moreover have "used_chunk_ids s \<subseteq> E"
    using assms(1) by (simp add: E_def)
  moreover have "set (slice_to (max_results req) kept) \<subseteq> set kept"
    by (rule set_slice_to)
  ultimately have "\<forall>r \<in> set (slice_to (max_results req) kept). chunk_id r \<notin> used_chunk_ids s"
    by blast
  then have "set (map chunk_id (slice_to (max_results req) kept)) \<inter> used_chunk_ids s = {}"
    by auto
  with d show ?thesis unfolding res by simp
qed

lemma snd_get_shakespeare_quote: "snd (get_shakespeare_quote list_of db req s) = s"
  by (simp add: get_shakespeare_quote_def post_filter_results_def Let_def)

lemma select_and_mark_used_unfold:
  "select_and_mark_used list_of clock db req s =
     (fst (get_shakespeare_quote list_of db req s),
      mark_results clock (semantic_query req) 0 (fst (get_shakespeare_quote list_of db req s)) s)"
  by (simp add: select_and_mark_used_def split_beta snd_get_shakespeare_quote)

lemma run_calls_distinct:
  assumes "lists_elements list_of" and "unique_ids db"
  shows "finite (used_chunk_ids s) \<Longrightarrow>
         distinct (returned_ids (fst (run_calls list_of db calls s))) \<and>
         set (returned_ids (fst (run_calls list_of db calls s))) \<inter> used_chunk_ids s = {}"
proof (induction calls arbitrary: s)
  case Nil
  then show ?case by (simp add: returned_ids_def)
next
  case (Cons call calls)
  obtain req clock where call: "call = (req, clock)" by (cases call)
  define rs where "rs = fst (get_shakespeare_quote list_of db req s)"
  define s' where "s' = mark_results clock (semantic_query req) 0 rs s"
  define rest where "rest = returned_ids (fst (run_calls list_of db calls s'))"
  from assms(1) Cons.prems have E: "set (list_of (used_chunk_ids s)) = used_chunk_ids s"
    by (simp add: lists_elements_def)
  have sel: "distinct (map chunk_id rs)" "set (map chunk_id rs) \<inter> used_chunk_ids s = {}"
    using selected_ids [where list_of = list_of and s = s and req = req, OF E assms(2)]
    by (simp_all add: rs_def)
  have used': "used_chunk_ids s' = used_chunk_ids s \<union> set (map chunk_id rs)"
    unfolding s'_def by (rule used_mark_results)
  with Cons.prems have "finite (used_chunk_ids s')" by simp
  from Cons.IH [OF this]
  have IH: "distinct rest" "set rest \<inter> used_chunk_ids s' = {}"
    by (simp_all add: rest_def)
  have run: "returned_ids (fst (run_calls list_of db (call # calls) s)) = map chunk_id rs @ rest"
    by (simp add: call select_and_mark_used_unfold split_beta returned_ids_def rs_def s'_def
        rest_def)
  from IH(2) have "set rest \<inter> used_chunk_ids s = {}" "set (map chunk_id rs) \<inter> set rest = {}"
    unfolding used' by blast+
  with sel IH(1) show ?case
    unfolding run by (simp add: Int_Un_distrib2)
qed

text \<open>
  C1. Over any sequence of \<open>select_and_mark_used\<close> calls on a new session, against a
  database that lists every id at most once in an answer, the ids returned by all the
  calls are pairwise distinct, within one call and across calls.
\<close>

theorem no_repeat_within_session:
  assumes "lists_elements list_of" and "unique_ids db"
  shows "distinct (returned_ids
           (fst (run_calls list_of db calls (new_session_manager sid generated))))"
proof -
  have "finite (used_chunk_ids (new_session_manager sid generated))"
    by (simp add: new_session_manager_def)
  from run_calls_distinct [OF assms this] show ?thesis by simp
qed

lemma unique_ids_small_db: "unique_ids small_db"
  unfolding unique_ids_def small_db_def
  by (intro allI distinct_ids_slice_to) (simp add: love_fate_def death_only_def no_fields_def)

theorem no_repeat_within_session_witness:
  "lists_elements sorted_list_of_set \<and> unique_ids small_db \<and>
   returned_ids (fst (run_calls sorted_list_of_set small_db
      [(plain_request ''love'' 1, noon), (plain_request ''love'' 1, noon)]
      (new_session_manager None ''20240101_120000''))) = [''c1'', ''c2''] \<and>
   distinct (returned_ids (fst (run_calls sorted_list_of_set small_db
      [(plain_request ''love'' 1, noon), (plain_request ''love'' 1, noon)]
      (new_session_manager None ''20240101_120000''))))"
proof -
  have l: "lists_elements sorted_list_of_set"
    by (simp add: lists_elements_def)
  have r: "returned_ids (fst (run_calls sorted_list_of_set small_db
      [(plain_request ''love'' 1, noon), (plain_request ''love'' 1, noon)]
      (new_session_manager None ''20240101_120000''))) = [''c1'', ''c2'']"
    by (simp add: small_db_def plain_request_def new_session_manager_def selector_defs
        select_and_mark_used_def mark_used_def love_fate_def death_only_def no_fields_def
        returned_ids_def)
  from no_repeat_within_session [OF l unique_ids_small_db] l unique_ids_small_db r
  show ?thesis by blast
qed

section \<open>Session state\<close>

lemma load_after_save:
  "load_session path (save_session list_of path s fs) t =
     Inr (t\<lparr>session_id := session_id s,
            used_chunk_ids := set (list_of (used_chunk_ids s)),
            usage_history := usage_history s\<rparr>)"
  by (simp add: load_session_def save_session_def)

text \<open>
  C7. Saving a session and loading the file into another tracker gives the saved session
  back: the same used ids and the same usage history (and the same session id).
\<close>

theorem persist_load_round_trip:
  assumes "lists_elements list_of" and "finite (used_chunk_ids s)"
  shows "load_session path (save_session list_of path s fs) t = Inr s"
proof -
  from assms have "set (list_of (used_chunk_ids s)) = used_chunk_ids s"
    by (simp add: lists_elements_def)
  then show ?thesis
    unfolding load_after_save by (cases s, cases t) simp
qed

theorem persist_load_round_trip_witness:
  "lists_elements sorted_list_of_set \<and> finite (used_chunk_ids two_used) \<and>
   load_session ''session.json'' (save_session sorted_list_of_set ''session.json'' two_used Map.empty)
     (new_session_manager None ''20240102_090000'') = Inr two_used"
proof -
  have l: "lists_elements sorted_list_of_set"
    by (simp add: lists_elements_def)
  have f: "finite (used_chunk_ids two_used)"
    by (simp add: two_used_def mark_used_def first_session_def new_session_manager_def)
  from persist_load_round_trip [OF l f] l f show ?thesis by blast
qed

lemma used_matches_history_finite: "used_matches_history s \<Longrightarrow> finite (used_chunk_ids s)"
  by (simp add: used_matches_history_def history_ids_def)

lemma mark_used_matches: "used_matches_history s \<Longrightarrow> used_matches_history (mark_used cid md now s)"
  by (simp add: used_matches_history_def history_ids_def mark_used_def)

lemma reset_matches: "used_matches_history (reset s)"
  by (simp add: used_matches_history_def history_ids_def reset_def)

lemma merge_session_matches:
  "used_matches_history s \<Longrightarrow> used_matches_history other_session \<Longrightarrow>
   used_matches_history (merge_session other_session s)"
  by (simp add: used_matches_history_def history_ids_def merge_session_def)

lemma save_session_matches:
  assumes "lists_elements list_of" and "used_matches_history s" and "files_match fs"
  shows "files_match (save_session list_of path s fs)"
proof -
  from assms(1) used_matches_history_finite [OF assms(2)]
  have "set (list_of (used_chunk_ids s)) = used_chunk_ids s"
    by (simp add: lists_elements_def)
  with assms(2) have "file_matches \<lparr>data_session_id = Some (session_id s),
                          data_used_chunk_ids = Some (list_of (used_chunk_ids s)),
                          data_usage_history = Some (usage_history s),
                          data_usage_count = Some (card (used_chunk_ids s))\<rparr>"
    by (simp add: file_matches_def used_matches_history_def values_of_def)
  with assms(3) show ?thesis
    by (simp add: files_match_def save_session_def)
qed

lemma load_session_matches:
  assumes "files_match fs" and "load_session path fs s = Inr s'"
  shows "used_matches_history s'"
proof (cases "fs path")
  case None
  with assms(2) show ?thesis by (simp add: load_session_def)
next
  case (Some d)
  with assms(1) have "file_matches d" by (simp add: files_match_def)
  with assms(2) Some show ?thesis
    by (auto simp: load_session_def file_matches_def used_matches_history_def values_of_def
        split: option.splits)
qed

lemma apply_op_matches:
  assumes "lists_elements list_of"
    and "used_matches_history (fst st)" and "files_match (snd st)"
    and "list_all used_matches_history (merged_sessions [op])"
  shows "used_matches_history (fst (apply_op list_of st op)) \<and>
         files_match (snd (apply_op list_of st op))"
proof (cases st)
  case (Pair s fs)
  with assms show ?thesis
  proof (cases op)
    case (LoadSession path)
    with Pair assms show ?thesis
      by (cases "load_session path fs s") (auto dest: load_session_matches)
  qed (simp_all add: mark_used_matches reset_matches merge_session_matches save_session_matches)
qed

lemma merged_sessions_Cons:
  "list_all P (merged_sessions (op # ops)) \<longleftrightarrow>
   list_all P (merged_sessions [op]) \<and> list_all P (merged_sessions ops)"
  by (cases op) simp_all

lemma run_ops_matches:
  assumes "lists_elements list_of"
  shows "used_matches_history (fst st) \<Longrightarrow> files_match (snd st) \<Longrightarrow>
         list_all used_matches_history (merged_sessions ops) \<Longrightarrow>
         used_matches_history (fst (run_ops list_of ops st)) \<and>
         files_match (snd (run_ops list_of ops st))"
proof (induction ops arbitrary: st)
  case Nil
  then show ?case by (simp add: run_ops_def)
next
  case (Cons op ops)
  from Cons.prems(3) have m: "list_all used_matches_history (merged_sessions [op])"
    "list_all used_matches_history (merged_sessions ops)"
    unfolding merged_sessions_Cons [of _ op ops] by simp_all
  from apply_op_matches [OF assms Cons.prems(1,2) m(1)]
  have "used_matches_history (fst (apply_op list_of st op))"
    "files_match (snd (apply_op list_of st op))" by simp_all
  from Cons.IH [OF this m(2)] show ?case
    by (simp add: run_ops_def)
qed

text \<open>
  C3, as the code has it. After any sequence of \<open>mark_used\<close>, \<open>reset\<close>,
  \<open>merge_session\<close>, \<open>save_session\<close> and \<open>load_session\<close> on a new session, the
  used ids are exactly the ids of the usage history, provided every merged session has
  this property and every session file present at the start lists as used exactly the
  ids of its history (as every file does that \<open>save_session\<close> writes from a session
  with the property).
\<close>

theorem used_ids_match_history:
  assumes "lists_elements list_of"
    and "files_match fs"
    and "list_all used_matches_history (merged_sessions ops)"
  shows "used_matches_history (fst (run_ops list_of ops (new_session_manager sid generated, fs)))"
proof -
  have "used_matches_history (new_session_manager sid generated)"
    by (simp add: used_matches_history_def history_ids_def new_session_manager_def)
  with run_ops_matches [OF assms(1), of "(new_session_manager sid generated, fs)" ops] assms(2,3)
  show ?thesis by simp
qed

theorem used_ids_match_history_witness:
  "lists_elements sorted_list_of_set \<and> files_match Map.empty \<and>
   list_all used_matches_history (merged_sessions scene_ops) \<and>
   used_matches_history
     (fst (run_ops sorted_list_of_set scene_ops (new_session_manager None ''20240101_120000'', Map.empty)))"
proof -
  have l: "lists_elements sorted_list_of_set"
    by (simp add: lists_elements_def)
  have f: "files_match Map.empty"
    by (simp add: files_match_def)
  have m: "list_all used_matches_history (merged_sessions scene_ops)"
    by (auto simp: scene_ops_def two_used_def used_matches_history_def history_ids_def
        mark_used_def first_session_def new_session_manager_def)
  from used_ids_match_history [OF l f m] l f m show ?thesis by blast
qed

text \<open>
  \<open>load_session\<close> copies the used ids and the history from two keys of the file and
  compares nothing: after loading a file whose two keys disagree, the used ids are not
  the ids of the history.
\<close>

theorem load_mismatch_counterexample:
  "used_chunk_ids (fst (run_ops sorted_list_of_set [LoadSession ''mismatch.json'']
      (new_session_manager None ''20240101_120000'', [''mismatch.json'' \<mapsto> mismatch_file])))
     = {''a'', ''b''} \<and>
   history_ids (usage_history (fst (run_ops sorted_list_of_set [LoadSession ''mismatch.json'']
      (new_session_manager None ''20240101_120000'', [''mismatch.json'' \<mapsto> mismatch_file]))))
     = {''c''} \<and>
   \<not> used_matches_history (fst (run_ops sorted_list_of_set [LoadSession ''mismatch.json'']
      (new_session_manager None ''20240101_120000'', [''mismatch.json'' \<mapsto> mismatch_file])))"
  by (auto simp: run_ops_def load_session_def new_session_manager_def mismatch_file_def
      history_ids_def used_matches_history_def)

section \<open>Stored metadata lists\<close>

lemma split_on_no_sep: "c \<notin> set x \<Longrightarrow> split_on c x = [x]"
  by (induction x) auto

lemma split_on_append_sep: "c \<notin> set x \<Longrightarrow> split_on c (x @ c # rest) = x # split_on c rest"
  by (induction x) auto

lemma split_on_join_with:
  "xs \<noteq> [] \<Longrightarrow> \<forall>x \<in> set xs. c \<notin> set x \<Longrightarrow> split_on c (join_with [c] xs) = xs"
  by (induction "[c]" xs rule: join_with.induct) (simp_all add: split_on_no_sep split_on_append_sep)

lemma prepare_metadata_list:
  "chunk field = Some (PStrs xs) \<Longrightarrow> field \<noteq> ''embedding'' \<Longrightarrow> field \<noteq> ''chunk_id'' \<Longrightarrow>
   dict_get (prepare_metadata float_str chunk) field [] = join_with '','' xs"
  by (simp add: prepare_metadata_def dict_get_def)

lemma stored_parts:
  assumes "chunk field = Some (PStrs xs)" and "field \<noteq> ''embedding''" and "field \<noteq> ''chunk_id''"
    and "\<forall>x \<in> set xs. CHR '','' \<notin> set x"
  shows "split_on CHR '','' (dict_get (prepare_metadata float_str chunk) field []) =
           (if xs = [] then [[]] else xs)"
  using assms by (simp add: prepare_metadata_list split_on_join_with)

text \<open>
  C10, as the code has it. A list of comma-free strings stored by \<open>_prepare_metadata\<close> under
  \<open>themes\<close> or \<open>emotional_tone\<close> is recovered by the split of the post-filter: a
  requested value matches the stored fragment iff it is an element of the original list,
  for a non-empty list and any value, and for the empty list and any non-empty value.
\<close>

theorem stored_list_matches:
  assumes "metadata r = prepare_metadata float_str chunk"
    and "\<forall>x \<in> set xs. CHR '','' \<notin> set x"
    and "chunk_id r \<notin> E"
    and "xs \<noteq> [] \<or> v \<noteq> []"
  shows "(chunk ''themes'' = Some (PStrs xs) \<longrightarrow>
            post_filter_loop E None (Some [v]) [r] = (if v \<in> set xs then [r] else [])) \<and>
         (chunk ''emotional_tone'' = Some (PStrs xs) \<longrightarrow>
            post_filter_loop E (Some [v]) None [r] = (if v \<in> set xs then [r] else []))"
proof -
  have m: "v \<in> set (if xs = [] then [[]] else xs) \<longleftrightarrow> v \<in> set xs"
    using assms(4) by auto
  have "post_filter_loop E None (Some [v]) [r] = (if v \<in> set xs then [r] else [])"
    if "chunk ''themes'' = Some (PStrs xs)"
    using assms(3) m
      stored_parts [where chunk = chunk and field = "''themes''" and xs = xs, OF that _ _ assms(2)]
    by (simp add: assms(1) truthy_def values_of_def)
  moreover have "post_filter_loop E (Some [v]) None [r] = (if v \<in> set xs then [r] else [])"
    if "chunk ''emotional_tone'' = Some (PStrs xs)"
    using assms(3) m
      stored_parts [where chunk = chunk and field = "''emotional_tone''" and xs = xs,
        OF that _ _ assms(2)]
    by (simp add: assms(1) truthy_def values_of_def)
  ultimately show ?thesis by blast
qed

theorem stored_list_matches_witness:
  "metadata (stored_result ''test_1'' ''To be'' hamlet_chunk) = prepare_metadata zero_text hamlet_chunk \<and>
   CHR '','' \<notin> set ''death'' \<and> CHR '','' \<notin> set ''existence'' \<and>
   chunk_id (stored_result ''test_1'' ''To be'' hamlet_chunk) \<notin> {''test_9''} \<and>
   hamlet_chunk ''themes'' = Some (PStrs [''death'', ''existence'']) \<and>
   post_filter_loop {''test_9''} None (Some [''existence''])
     [stored_result ''test_1'' ''To be'' hamlet_chunk] = [stored_result ''test_1'' ''To be'' hamlet_chunk] \<and>
   post_filter_loop {''test_9''} None (Some [''love''])
     [stored_result ''test_1'' ''To be'' hamlet_chunk] = []"
proof -
  have a: "metadata (stored_result ''test_1'' ''To be'' hamlet_chunk) = prepare_metadata zero_text hamlet_chunk"
    by (simp add: stored_result_def)
  have b: "\<forall>x \<in> set [''death'', ''existence'']. CHR '','' \<notin> set x"
    by simp
  have c: "chunk_id (stored_result ''test_1'' ''To be'' hamlet_chunk) \<notin> {''test_9''}"
    by (simp add: stored_result_def)
  have t: "hamlet_chunk ''themes'' = Some (PStrs [''death'', ''existence''])"
    by (simp add: hamlet_chunk_def)
  have d: "[''death'', ''existence''] \<noteq> [] \<or> v \<noteq> []" for v :: string
    by simp
  from stored_list_matches [OF a b c d, of "''existence''"] stored_list_matches [OF a b c d, of "''love''"]
    a b c t
  show ?thesis by simp
qed

text \<open>
  A fragment stored with \<open>themes = []\<close> matches the requested value \<open>''\<close>: the
  empty list is stored as the empty string, which splits into \<open>['']\<close>.
\<close>

theorem empty_list_counterexample:
  "untagged_chunk ''themes'' = Some (PStrs []) \<and>
   post_filter_loop {} None (Some [[]]) [stored_result ''test_3'' ''Exeunt'' untagged_chunk]
     = [stored_result ''test_3'' ''Exeunt'' untagged_chunk]"
  by (simp add: untagged_chunk_def stored_result_def prepare_metadata_def dict_get_def truthy_def
      values_of_def)

section \<open>Inserting chunks\<close>

lemma add_chunks_loop_kept:
  assumes "\<forall>c \<in> set chunks. has_id_and_embedding c \<longrightarrow> c ''chunk_text'' \<noteq> None"
  shows "add_chunks_loop float_str chunks acc =
     Inr (acc\<lparr>add_ids := add_ids acc @
                  map (\<lambda>c. dict_get c ''chunk_id'' PNone) (filter has_id_and_embedding chunks),
              add_embeddings := add_embeddings acc @
                  map (\<lambda>c. dict_get c ''embedding'' PNone) (filter has_id_and_embedding chunks),
              add_documents := add_documents acc @
                  map (\<lambda>c. dict_get c ''chunk_text'' PNone) (filter has_id_and_embedding chunks),
              add_metadatas := add_metadatas acc @
                  map (prepare_metadata float_str) (filter has_id_and_embedding chunks)\<rparr>)"
  using assms
proof (induction chunks arbitrary: acc)
  case Nil
  then show ?case by simp
next
  case (Cons c chunks)
  then have IH: "\<And>acc. add_chunks_loop float_str chunks acc =
     Inr (acc\<lparr>add_ids := add_ids acc @
                  map (\<lambda>c. dict_get c ''chunk_id'' PNone) (filter has_id_and_embedding chunks),
              add_embeddings := add_embeddings acc @
                  map (\<lambda>c. dict_get c ''embedding'' PNone) (filter has_id_and_embedding chunks),
              add_documents := add_documents acc @
                  map (\<lambda>c. dict_get c ''chunk_text'' PNone) (filter has_id_and_embedding chunks),
              add_metadatas := add_metadatas acc @
                  map (prepare_metadata float_str) (filter has_id_and_embedding chunks)\<rparr>)"
    by simp
  show ?case
  proof (cases "has_id_and_embedding c")
    case True
    with Cons.prems obtain doc where doc: "c ''chunk_text'' = Some doc" by auto
    from True have t: "py_truth (dict_get c ''chunk_id'' PNone)"
      "py_truth (dict_get c ''embedding'' PNone)"
      by (simp_all add: has_id_and_embedding_def)
    from doc have d: "dict_get c ''chunk_text'' PNone = doc"
      by (simp add: dict_get_def)
    from True t doc d show ?thesis
      by (simp add: IH Let_def)
  next
    case False
    then have "\<not> py_truth (dict_get c ''chunk_id'' PNone) \<or>
               \<not> py_truth (dict_get c ''embedding'' PNone)"
      by (simp add: has_id_and_embedding_def)
    with False show ?thesis
      by (auto simp: IH Let_def)
  qed
qed

text \<open>A complete chunk without \<open>chunk_text\<close> ends the call with \<open>KeyError\<close>, before any insert.\<close>

lemma add_chunks_loop_key_error:
  "\<exists>c \<in> set chunks. has_id_and_embedding c \<and> c ''chunk_text'' = None \<Longrightarrow>
   add_chunks_loop float_str chunks acc = Inl (KeyError ''chunk_text'')"
proof (induction chunks arbitrary: acc)
  case Nil
  then show ?case by simp
next
  case (Cons c chunks)
  show ?case
  proof (cases "has_id_and_embedding c \<and> c ''chunk_text'' = None")
    case True
    then show ?thesis
      by (simp add: has_id_and_embedding_def Let_def)
  next
    case False
    with Cons.prems have "\<exists>c \<in> set chunks. has_id_and_embedding c \<and> c ''chunk_text'' = None"
      by auto
    from Cons.IH [OF this] show ?thesis
      by (simp add: Let_def split: option.splits)
  qed
qed

lemma add_chunks_key_error:
  "\<exists>c \<in> set chunks. has_id_and_embedding c \<and> c ''chunk_text'' = None \<Longrightarrow>
   add_chunks collection_add float_str chunks collection = Inl (KeyError ''chunk_text'')"
  by (cases "chunks = []") (auto simp: add_chunks_def add_chunks_loop_key_error)

text \<open>
  C2, as the code has it. \<open>add_chunks\<close> skips every chunk whose id or embedding is missing or
  empty and passes all the other chunks of the batch, in order, to one \<open>collection.add\<close>
  call, whose outcome is the outcome of \<open>add_chunks\<close>: the collection with the rows
  added when the store accepts the call, the exception of the store when it raises.
  \<open>add_chunks\<close> raises no error for the skipped chunks, and makes no call, leaving the
  collection as it was, when no chunk of the batch is complete. (Every complete chunk is
  taken to have a \<open>chunk_text\<close>.)
\<close>

theorem add_chunks_skips_incomplete:
  assumes "\<forall>c \<in> set chunks. has_id_and_embedding c \<longrightarrow> c ''chunk_text'' \<noteq> None"
  shows "add_chunks collection_add float_str chunks collection =
     (if filter has_id_and_embedding chunks = [] then Inr collection
      else collection_add
        \<lparr>add_ids = map (\<lambda>c. dict_get c ''chunk_id'' PNone) (filter has_id_and_embedding chunks),
         add_embeddings = map (\<lambda>c. dict_get c ''embedding'' PNone) (filter has_id_and_embedding chunks),
         add_documents = map (\<lambda>c. dict_get c ''chunk_text'' PNone) (filter has_id_and_embedding chunks),
         add_metadatas = map (prepare_metadata float_str) (filter has_id_and_embedding chunks)\<rparr>
        collection)"
  by (cases "chunks = []") (simp_all add: add_chunks_def add_chunks_loop_kept [OF assms])

text \<open>
  A batch of a complete chunk and a chunk without embedding, on a store that accepts the
  call: no error is raised and the complete chunk alone is inserted.
\<close>

theorem partial_batch_counterexample:
  "chunk_without_embedding ''embedding'' = None \<and>
   add_chunks strict_add zero_text [hamlet_chunk, chunk_without_embedding] [] =
     Inr [PStr ''test_1'']"
  by (simp add: add_chunks_def strict_add_def hamlet_chunk_def chunk_without_embedding_def
      dict_get_def Let_def)

theorem add_chunks_skips_incomplete_witness:
  "hamlet_chunk ''chunk_text'' \<noteq> None \<and>
   filter has_id_and_embedding [hamlet_chunk, chunk_without_embedding] = [hamlet_chunk] \<and>
   add_chunks strict_add zero_text [hamlet_chunk, chunk_without_embedding] [] =
     strict_add \<lparr>add_ids = [PStr ''test_1''],
                 add_embeddings = [PFloats [1 / 10, 2 / 10]],
                 add_documents = [PStr ''To be, or not to be: that is the question''],
                 add_metadatas = [prepare_metadata zero_text hamlet_chunk]\<rparr> [] \<and>
   strict_add \<lparr>add_ids = [PStr ''test_1''],
                 add_embeddings = [PFloats [1 / 10, 2 / 10]],
                 add_documents = [PStr ''To be, or not to be: that is the question''],
                 add_metadatas = [prepare_metadata zero_text hamlet_chunk]\<rparr> [] =
     Inr [PStr ''test_1'']"
proof -
  have h: "\<forall>c \<in> set [hamlet_chunk, chunk_without_embedding].
      has_id_and_embedding c \<longrightarrow> c ''chunk_text'' \<noteq> None"
    by (simp add: hamlet_chunk_def chunk_without_embedding_def)
  have k: "filter has_id_and_embedding [hamlet_chunk, chunk_without_embedding] = [hamlet_chunk]"
    by (simp add: has_id_and_embedding_def hamlet_chunk_def chunk_without_embedding_def dict_get_def)
  have v: "dict_get hamlet_chunk ''chunk_id'' PNone = PStr ''test_1''"
    "dict_get hamlet_chunk ''embedding'' PNone = PFloats [1 / 10, 2 / 10]"
    "dict_get hamlet_chunk ''chunk_text'' PNone = PStr ''To be, or not to be: that is the question''"
    by (simp_all add: hamlet_chunk_def dict_get_def)
  have t: "hamlet_chunk ''chunk_text'' \<noteq> None"
    by (simp add: hamlet_chunk_def)
  have a: "strict_add \<lparr>add_ids = [PStr ''test_1''],
                 add_embeddings = [PFloats [1 / 10, 2 / 10]],
                 add_documents = [PStr ''To be, or not to be: that is the question''],
                 add_metadatas = [prepare_metadata zero_text hamlet_chunk]\<rparr> [] =
     Inr [PStr ''test_1'']"
    by (simp add: strict_add_def)
  from add_chunks_skips_incomplete [OF h, of strict_add zero_text "[]"] t k v a
  show ?thesis by simp
qed

text \<open>
  Two complete chunks with embeddings of different lengths, and the same chunk twice: the
  store refuses the call, the exception leaves \<open>add_chunks\<close>, and no collection is
  returned.
\<close>

lemma add_chunks_store_raises:
  "add_chunks strict_add zero_text [hamlet_chunk, untagged_chunk] [] =
     Inl (CollectionError ''embedding dimension'') \<and>
   add_chunks strict_add zero_text [hamlet_chunk, hamlet_chunk] [] =
     Inl (CollectionError ''duplicate id'')"
  by (simp add: add_chunks_def strict_add_def hamlet_chunk_def untagged_chunk_def
      dict_get_def Let_def)

end
